theory Spec2Isabelle
  imports Main
begin

section \<open>The awg-manager service (server/src/cmd/awg-manager/main.go)\<close>

text \<open>
  A shallow embedding of the management service: its records, the files it keeps under
  the data directory, the address allocator, the two configuration renderers and the HTTP
  handlers. Every handler is a function from the request and the files before the request
  to the response and the files after it. The process-wide mutex makes the handlers run one
  after the other, so a handler is modelled as one step.
\<close>

subsection \<open>Records\<close>

text \<open>
  A \<open>time.Time\<close> is the wall-clock instant in nanoseconds; \<open>t.After(u)\<close> is \<open>u < t\<close>.
  A pointer that may be nil (\<open>*time.Time\<close>, \<open>*int\<close>, \<open>*string\<close>) is an option.
\<close>

type_synonym time = int

record serverState =
  ServerPrivateKey :: string
  ServerPublicKey :: string
  SubnetCIDR :: string
  ServerIP :: string
  NextHost :: int

record client =
  ID :: string
  Name :: string
  PublicKey :: string
  PrivKey :: string
  Address :: string
  CreatedAt :: time
  ExpiresAt :: "time option"

text \<open>The fields of \<open>clientPublic\<close> carry the prefix \<open>pub\<close>; the struct has no private key.\<close>

record clientPublic =
  pubID :: string
  pubName :: string
  pubPublicKey :: string
  pubAddress :: string
  pubCreatedAt :: time
  pubExpiresAt :: "time option"

definition toPublic :: "client \<Rightarrow> clientPublic" where
  "toPublic c =
     \<lparr>pubID = ID c, pubName = Name c, pubPublicKey = PublicKey c, pubAddress = Address c,
      pubCreatedAt = CreatedAt c, pubExpiresAt = ExpiresAt c\<rparr>"

text \<open>\<open>dlToken\<close>; its expiry is \<open>tokExpiresAt\<close>, the client's being \<open>ExpiresAt\<close>.\<close>

record dlToken =
  Token :: string
  ClientID :: string
  tokExpiresAt :: time
  Used :: bool

text \<open>The fields of \<open>app\<close> that the handlers read (the mutex is the step semantics).\<close>

record app =
  dataDir :: string
  iface :: string
  port :: int
  endpoint :: string

subsection \<open>Library functions\<close>

text \<open>
  The Go library functions whose results the handlers depend on and whose source is not
  part of the service are parameters of the model: \<open>net.ParseCIDR\<close> (the masked network
  address \<open>ipnet.IP\<close> as a list of bytes and the first result of \<open>ipnet.Mask.Size()\<close>),
  \<open>time.Parse(time.RFC3339, _)\<close> and \<open>strings.TrimSpace\<close>. \<open>None\<close> is the library's
  error. Every general theorem below holds for each such triple of functions.

  \<open>ParseRFC3339\<close> returns the instant of the parsed \<open>time.Time\<close> and whether
  \<open>Time.MarshalJSON\<close> accepts that value: \<open>time.Parse\<close> takes a zone offset of 24 hours,
  which the JSON encoding refuses. The records of the model hold instants, as their JSON
  form does; the clock is taken to read a year the JSON encoding accepts, so that the
  instants the service computes from \<open>time.Now()\<close> encode.
\<close>

record ipnet =
  netIP :: "nat list"
  maskOnes :: int

record golib =
  ParseCIDR :: "string \<Rightarrow> ipnet option"
  ParseRFC3339 :: "string \<Rightarrow> (time \<times> bool) option"
  TrimSpace :: "string \<Rightarrow> string"

text \<open>\<open>IP.To4\<close>: a 4-byte address as it is, an IPv4-mapped 16-byte address cut to its last
  four bytes, nil otherwise.\<close>

definition To4 :: "nat list \<Rightarrow> nat list option" where
  "To4 ip =
     (if length ip = 4 then Some ip
      else if length ip = 16 \<and> take 10 ip = replicate 10 0 \<and> ip ! 10 = 255 \<and> ip ! 11 = 255
        then Some (drop 12 ip)
      else None)"

text \<open>Decimal rendering, as \<open>%d\<close> and \<open>IP.String\<close> print a number.\<close>

definition digit :: "nat \<Rightarrow> char" where
  "digit n = ''0123456789'' ! n"

fun uitoa :: "nat \<Rightarrow> string" where
  "uitoa n = (if n < 10 then [digit n] else uitoa (n div 10) @ [digit (n mod 10)])"

declare uitoa.simps [simp del]

definition itoa :: "int \<Rightarrow> string" where
  "itoa i = (if i < 0 then ''-'' @ uitoa (nat (- i)) else uitoa (nat i))"

text \<open>\<open>net.IPv4(a, b, c, d).String()\<close>.\<close>

definition IPv4String :: "nat \<Rightarrow> nat \<Rightarrow> nat \<Rightarrow> nat \<Rightarrow> string" where
  "IPv4String a b c d = uitoa a @ ''.'' @ uitoa b @ ''.'' @ uitoa c @ ''.'' @ uitoa d"

text \<open>\<open>byte(n)\<close> of an \<open>int\<close>: the low eight bits.\<close>

definition byte :: "int \<Rightarrow> nat" where
  "byte n = nat (n mod 256)"

text \<open>\<open>strings.TrimPrefix\<close>, and \<open>strings.Split(s, "/")[0]\<close>: the text before the first
  slash, all of \<open>s\<close> when it has none.\<close>

definition TrimPrefix :: "string \<Rightarrow> string \<Rightarrow> string" where
  "TrimPrefix s p = (if take (length p) s = p then drop (length p) s else s)"

definition beforeSlash :: "string \<Rightarrow> string" where
  "beforeSlash s = takeWhile (\<lambda>c. c \<noteq> CHR ''/'') s"

text \<open>\<open>time.Duration(n) * time.Second\<close>: a signed 64-bit count of nanoseconds, the product
  wrapping around as Go's integer multiplication does (\<open>int\<close> has 64 bits on the 64-bit
  platforms the service is built for).\<close>

definition wrap64 :: "int \<Rightarrow> int" where
  "wrap64 x = (x + 2 ^ 63) mod 2 ^ 64 - 2 ^ 63"

definition seconds :: "int \<Rightarrow> int" where
  "seconds n = wrap64 (n * 1000000000)"

subsection \<open>Files, environment, errors and responses\<close>

text \<open>
  A file under the data directory is missing, present but unreadable (the read or the JSON
  decoding fails), or holds a value. The JSON files hold the decoded records: encoding and
  decoding a record gives it back.
\<close>

datatype 'a onDisk = Missing | Unreadable | Content 'a

record world =
  serverFile :: "serverState onDisk"
  clientsFile :: "client list onDisk"
  tokensFile :: "dlToken list onDisk"
  confFile :: "string onDisk"
  extraInterfaceFile :: "string onDisk"
  allowedIPsFile :: "string onDisk"

text \<open>
  What one request gets from outside the process: the first and the second reading of
  \<open>time.Now()\<close>, the key pair of \<open>wgtypes.GeneratePrivateKey\<close> (private, public; \<open>None\<close> when
  it fails), the strings of \<open>makeID\<close> and \<open>randomToken\<close>, and the outcome of each write and
  of the \<open>awg setconf\<close> command. A write outcome \<open>None\<close> is success; \<open>Some f\<close> is a failed
  \<open>os.WriteFile\<close> that leaves the file as \<open>f\<close>.
\<close>

record env =
  now1 :: time
  now2 :: time
  keygen :: "(string \<times> string) option"
  newID :: string
  newToken :: string
  saveClientsErr :: "client list onDisk option"
  writeServerStateErr :: "serverState onDisk option"
  saveTokensErr :: "dlToken list onDisk option"
  writeConfErr :: "string onDisk option"
  awgErr :: bool

datatype error =
    ErrRead | ErrWrite | ErrExec | ErrKeygen | ErrNotExist
  | ErrParseCIDR | ErrOnlyIPv4 | ErrOnly24 string | ErrPoolExhausted

text \<open>
  A response is its status and its body; headers are not modelled. \<open>Text m\<close> is the
  message \<open>m\<close> given to \<open>http.Error\<close> (which sends it with a newline after it),
  \<open>ErrorText p e\<close> the message \<open>p + e.Error()\<close>, \<open>LinkJSON u t\<close> the object with \<open>urlPath\<close> \<open>u\<close>
  and the RFC3339 text of \<open>t\<close>, \<open>ConfigFile\<close> the client configuration sent as attachment,
  \<open>NoContent\<close> an answer with no body.
\<close>

datatype body =
    Text string
  | ErrorText string error
  | ClientList "clientPublic list"
  | ClientJSON clientPublic
  | LinkJSON string time
  | ConfigFile string
  | NoContent

record response =
  status :: nat
  body :: body

definition httpError :: "string \<Rightarrow> nat \<Rightarrow> response" where
  "httpError msg code = \<lparr>status = code, body = Text msg\<rparr>"

definition httpErrorOf :: "string \<Rightarrow> error \<Rightarrow> nat \<Rightarrow> response" where
  "httpErrorOf prefix err code = \<lparr>status = code, body = ErrorText prefix err\<rparr>"

text \<open>
  A request body, by what \<open>json.NewDecoder(r.Body).Decode(&q)\<close> does with it. An empty body
  (\<open>io.EOF\<close>) and a body that does not start with a well-formed JSON value (a syntax error)
  both return an error and store nothing in \<open>q\<close>. \<open>JSONValue q' err\<close> is a body that is one
  well-formed JSON value, \<open>LeadingJSON q' err\<close> a well-formed JSON value followed by text
  that is no part of it, as in \<open>{"ttlSeconds": 120} garbage\<close>: the body as a whole is not
  JSON, but the decoder reads the leading value and never looks at the rest. For both,
  \<open>q'\<close> is \<open>q\<close> as decoding the value leaves it, and \<open>err\<close> says whether a member had the
  wrong type. \<open>Decode\<close> returns \<open>q\<close> and whether an error was returned.
\<close>

datatype 'q reqBody = EmptyBody | MalformedJSON | JSONValue 'q bool | LeadingJSON 'q bool

fun Decode :: "'q \<Rightarrow> 'q reqBody \<Rightarrow> 'q \<times> bool" where
  "Decode q EmptyBody = (q, True)"
| "Decode q MalformedJSON = (q, True)"
| "Decode q (JSONValue q' err) = (q', err)"
| "Decode q (LeadingJSON q' err) = (q', err)"

record 'q request =
  Method :: string
  Path :: string
  Body :: "'q reqBody"

record createReq =
  reqName :: string
  reqExpiresAt :: "string option"

record linkReq =
  TTLSeconds :: "int option"

subsection \<open>The record store\<close>

definition readServerState :: "world \<Rightarrow> error + serverState" where
  "readServerState w =
     (case serverFile w of
        Missing \<Rightarrow> Inl ErrNotExist | Unreadable \<Rightarrow> Inl ErrRead | Content st \<Rightarrow> Inr st)"

definition writeServerState :: "env \<Rightarrow> serverState \<Rightarrow> world \<Rightarrow> error option \<times> world" where
  "writeServerState e st w =
     (case writeServerStateErr e of
        None \<Rightarrow> (None, w\<lparr>serverFile := Content st\<rparr>)
      | Some f \<Rightarrow> (Some ErrWrite, w\<lparr>serverFile := f\<rparr>))"

definition loadClients :: "world \<Rightarrow> error + client list" where
  "loadClients w =
     (case clientsFile w of Missing \<Rightarrow> Inr [] | Unreadable \<Rightarrow> Inl ErrRead | Content cs \<Rightarrow> Inr cs)"

text \<open>
  \<open>saveClients\<close> drops the error of \<open>json.MarshalIndent\<close> and writes the bytes it got.
  \<open>enc\<close> says whether the list encodes: when it does not, the bytes are none, the write
  succeeds and leaves an empty file, which no later read can decode, and no error is
  returned. A list read from the file encodes again; the list of a creation encodes unless
  the expiry of the new client is a value the JSON encoding refuses.
\<close>

definition saveClients ::
  "env \<Rightarrow> bool \<Rightarrow> client list \<Rightarrow> world \<Rightarrow> error option \<times> world" where
  "saveClients e enc cs w =
     (case saveClientsErr e of
        None \<Rightarrow> (None, w\<lparr>clientsFile := (if enc then Content cs else Unreadable)\<rparr>)
      | Some f \<Rightarrow> (Some ErrWrite, w\<lparr>clientsFile := f\<rparr>))"

definition loadTokens :: "world \<Rightarrow> error + dlToken list" where
  "loadTokens w =
     (case tokensFile w of Missing \<Rightarrow> Inr [] | Unreadable \<Rightarrow> Inl ErrRead | Content ts \<Rightarrow> Inr ts)"

definition saveTokens :: "env \<Rightarrow> dlToken list \<Rightarrow> world \<Rightarrow> error option \<times> world" where
  "saveTokens e ts w =
     (case saveTokensErr e of
        None \<Rightarrow> (None, w\<lparr>tokensFile := Content ts\<rparr>)
      | Some f \<Rightarrow> (Some ErrWrite, w\<lparr>tokensFile := f\<rparr>))"

subsection \<open>The address allocator\<close>

text \<open>
  \<open>allocateNextAddress\<close> changes the caller's \<open>st\<close> through the pointer only on the path
  that returns an address; the model returns the address with the changed state.
\<close>

definition allocateNextAddress :: "golib \<Rightarrow> serverState \<Rightarrow> error + (string \<times> serverState)" where
  "allocateNextAddress L st =
     (case ParseCIDR L (SubnetCIDR st) of
        None \<Rightarrow> Inl ErrParseCIDR
      | Some ipn \<Rightarrow>
          (case To4 (netIP ipn) of
             None \<Rightarrow> Inl ErrOnlyIPv4
           | Some base \<Rightarrow>
               if maskOnes ipn \<noteq> 24 then Inl (ErrOnly24 (SubnetCIDR st))
               else if NextHost st < 2 \<or> NextHost st > 254 then Inl ErrPoolExhausted
               else
                 let cand = IPv4String (base ! 0) (base ! 1) (base ! 2) (byte (NextHost st));
                     st1 = (if cand = ServerIP st then st\<lparr>NextHost := NextHost st + 1\<rparr> else st);
                     cand1 = (if cand = ServerIP st
                              then IPv4String (base ! 0) (base ! 1) (base ! 2) (byte (NextHost st1))
                              else cand)
                 in Inr (cand1 @ ''/32'', st1\<lparr>NextHost := NextHost st1 + 1\<rparr>)))"

subsection \<open>Rendering and applying the gateway configuration\<close>

definition expired :: "time \<Rightarrow> client \<Rightarrow> bool" where
  "expired now c = (case ExpiresAt c of None \<Rightarrow> False | Some t \<Rightarrow> t < now)"

text \<open>The loop of \<open>applyServerConfig\<close> over the clients; \<open>b\<close> is the string builder.\<close>

fun writePeers :: "time \<Rightarrow> client list \<Rightarrow> string \<Rightarrow> string" where
  "writePeers now [] b = b"
| "writePeers now (c # cs) b =
     (if expired now c then writePeers now cs b
      else writePeers now cs
             (b @ ''[Peer]\<newline>''
                @ ''PublicKey = '' @ PublicKey c @ ''\<newline>''
                @ ''AllowedIPs = '' @ beforeSlash (Address c) @ ''/32\<newline>''
                @ ''\<newline>''))"

definition serverConfigText :: "app \<Rightarrow> time \<Rightarrow> serverState \<Rightarrow> client list \<Rightarrow> string" where
  "serverConfigText a now st cs =
     writePeers now cs
       (''[Interface]\<newline>''
          @ ''PrivateKey = '' @ ServerPrivateKey st @ ''\<newline>''
          @ ''ListenPort = '' @ itoa (port a) @ ''\<newline>''
          @ ''\<newline>'')"

text \<open>\<open>now\<close> is the reading of \<open>time.Now()\<close> inside \<open>applyServerConfig\<close>. The file is
  written, then \<open>awg setconf\<close> runs.\<close>

definition applyServerConfig ::
  "app \<Rightarrow> env \<Rightarrow> time \<Rightarrow> serverState \<Rightarrow> client list \<Rightarrow> world \<Rightarrow> error option \<times> world" where
  "applyServerConfig a e now st cs w =
     (case writeConfErr e of
        Some f \<Rightarrow> (Some ErrWrite, w\<lparr>confFile := f\<rparr>)
      | None \<Rightarrow>
          (if awgErr e then Some ErrExec else None,
           w\<lparr>confFile := Content (serverConfigText a now st cs)\<rparr>))"

subsection \<open>Rendering a client's configuration\<close>

definition renderClientConfig :: "app \<Rightarrow> golib \<Rightarrow> world \<Rightarrow> client \<Rightarrow> serverState \<Rightarrow> string" where
  "renderClientConfig a L w c st =
     ''[Interface]\<newline>''
     @ ''PrivateKey = '' @ PrivKey c @ ''\<newline>''
     @ ''Address = '' @ Address c @ ''\<newline>''
     @ (case extraInterfaceFile w of
          Content bb \<Rightarrow> (if TrimSpace L bb \<noteq> '''' then TrimSpace L bb @ ''\<newline>'' else '''')
        | _ \<Rightarrow> '''')
     @ ''\<newline>[Peer]\<newline>''
     @ ''PublicKey = '' @ ServerPublicKey st @ ''\<newline>''
     @ (if endpoint a \<noteq> '''' then ''Endpoint = '' @ endpoint a @ ''\<newline>'' else '''')
     @ ''AllowedIPs = ''
     @ (case allowedIPsFile w of
          Content bb \<Rightarrow> (if TrimSpace L bb \<noteq> '''' then TrimSpace L bb else ''0.0.0.0/0, ::/0'')
        | _ \<Rightarrow> ''0.0.0.0/0, ::/0'')
     @ ''\<newline>''"

definition findClientAndState :: "world \<Rightarrow> string \<Rightarrow> error + (client \<times> serverState)" where
  "findClientAndState w cid =
     (case readServerState w of
        Inl err \<Rightarrow> Inl err
      | Inr st \<Rightarrow>
          (case loadClients w of
             Inl err \<Rightarrow> Inl err
           | Inr cs \<Rightarrow>
               (case find (\<lambda>c. ID c = cid) cs of
                  Some c \<Rightarrow> Inr (c, st)
                | None \<Rightarrow> Inl ErrNotExist)))"

subsection \<open>Clients: list, create, delete\<close>

text \<open>The expiry of a creation request (lines 311 to 319 of \<open>createClient\<close>): nil when
  \<open>expiresAt\<close> is absent or blank, the parsed value otherwise (its instant, and whether it
  encodes); \<open>Inl\<close> when it does not parse. A client with no expiry encodes.\<close>

definition encodes :: "(time \<times> bool) option \<Rightarrow> bool" where
  "encodes exp = (case exp of None \<Rightarrow> True | Some (t, ok) \<Rightarrow> ok)"

definition parseExpiresAt :: "golib \<Rightarrow> createReq \<Rightarrow> unit + (time \<times> bool) option" where
  "parseExpiresAt L q =
     (case reqExpiresAt q of
        None \<Rightarrow> Inr None
      | Some s \<Rightarrow>
          if TrimSpace L s = '''' then Inr None
          else (case ParseRFC3339 L (TrimSpace L s) of
                  None \<Rightarrow> Inl ()
                | Some t \<Rightarrow> Inr (Some t)))"

text \<open>
  The answer of a creation is written by \<open>json.NewEncoder(w).Encode(toPublic(c))\<close>, whose
  error is dropped as well: when the new client's expiry does not encode, nothing is
  written and the answer is 200 with no body.
\<close>

definition createClient ::
  "app \<Rightarrow> golib \<Rightarrow> env \<Rightarrow> createReq request \<Rightarrow> world \<Rightarrow> response \<times> world" where
  "createClient a L e r w =
     (let (q, decodeErr) = Decode \<lparr>reqName = '''', reqExpiresAt = None\<rparr> (Body r) in
      if decodeErr then (httpError ''bad json'' 400, w)
      else if TrimSpace L (reqName q) = '''' then (httpError ''name required'' 400, w)
      else
        case parseExpiresAt L q of
          Inl _ \<Rightarrow> (httpError ''expiresAt must be RFC3339'' 400, w)
        | Inr exp \<Rightarrow>
        (case readServerState w of
          Inl err \<Rightarrow> (httpErrorOf '''' err 500, w)
        | Inr st \<Rightarrow>
        (case loadClients w of
          Inl err \<Rightarrow> (httpErrorOf '''' err 500, w)
        | Inr cs \<Rightarrow>
        (case allocateNextAddress L st of
          Inl err \<Rightarrow> (httpErrorOf ''address allocation failed: '' err 500, w)
        | Inr (addr, st') \<Rightarrow>
        (case keygen e of
          None \<Rightarrow> (httpErrorOf '''' ErrKeygen 500, w)
        | Some (priv, pub) \<Rightarrow>
            let c = \<lparr>ID = newID e, Name = TrimSpace L (reqName q), PublicKey = pub,
                     PrivKey = priv, Address = addr, CreatedAt = now1 e,
                     ExpiresAt = map_option fst exp\<rparr>
            in
            (case saveClients e (encodes exp) (cs @ [c]) w of
              (Some err, w1) \<Rightarrow> (httpErrorOf '''' err 500, w1)
            | (None, w1) \<Rightarrow>
            (case writeServerState e st' w1 of
              (Some err, w2) \<Rightarrow> (httpErrorOf '''' err 500, w2)
            | (None, w2) \<Rightarrow>
            (case applyServerConfig a e (now2 e) st' (cs @ [c]) w2 of
              (Some err, w3) \<Rightarrow> (httpErrorOf ''apply failed: '' err 500, w3)
            | (None, w3) \<Rightarrow>
                (\<lparr>status = 200,
                  body = (if encodes exp then ClientJSON (toPublic c) else NoContent)\<rparr>,
                 w3)))))))))"


definition handleClients ::
  "app \<Rightarrow> golib \<Rightarrow> env \<Rightarrow> createReq request \<Rightarrow> world \<Rightarrow> response \<times> world" where
  "handleClients a L e r w =
     (if Method r = ''GET'' then
        (case loadClients w of
           Inl err \<Rightarrow> (httpErrorOf '''' err 500, w)
         | Inr cs \<Rightarrow>
             (\<lparr>status = 200, body = ClientList (foldl (\<lambda>out c. out @ [toPublic c]) [] cs)\<rparr>, w))
      else if Method r = ''POST'' then createClient a L e r w
      else (httpError ''method not allowed'' 405, w))"

subsection \<open>One-time links: issue and redeem\<close>

definition createOneTimeLink ::
  "app \<Rightarrow> env \<Rightarrow> linkReq request \<Rightarrow> string \<Rightarrow> world \<Rightarrow> response \<times> world" where
  "createOneTimeLink a e r cid w =
     (let q = fst (Decode \<lparr>TTLSeconds = None\<rparr> (Body r));
          ttl = (case TTLSeconds q of Some n \<Rightarrow> if n > 0 then n else 3600 | None \<Rightarrow> 3600)
      in
      case loadClients w of
        Inl err \<Rightarrow> (httpErrorOf '''' err 500, w)
      | Inr cs \<Rightarrow>
          if find (\<lambda>c. ID c = cid) cs = None then (httpError ''not found'' 404, w)
          else
            (case loadTokens w of
              Inl err \<Rightarrow> (httpErrorOf '''' err 500, w)
            | Inr ts \<Rightarrow>
                let t = \<lparr>Token = newToken e, ClientID = cid,
                         tokExpiresAt = now1 e + seconds ttl, Used = False\<rparr>
                in
                (case saveTokens e (ts @ [t]) w of
                  (Some err, w1) \<Rightarrow> (httpErrorOf '''' err 500, w1)
                | (None, w1) \<Rightarrow>
                    (\<lparr>status = 200,
                      body = LinkJSON (''/dl/'' @ newToken e) (tokExpiresAt t)\<rparr>, w1))))"

text \<open>The index of the first token with the given value; \<open>None\<close> is the source's \<open>-1\<close>.\<close>

fun tokenIndex :: "string \<Rightarrow> dlToken list \<Rightarrow> nat option" where
  "tokenIndex token [] = None"
| "tokenIndex token (t # ts) =
     (if Token t = token then Some 0 else map_option Suc (tokenIndex token ts))"

text \<open>The token of a request to the download path (lines 573 and 574).\<close>

definition pathToken :: "golib \<Rightarrow> 'q request \<Rightarrow> string" where
  "pathToken L r = TrimSpace L (TrimPrefix (Path r) ''/dl/'')"

definition handleDownloadToken ::
  "app \<Rightarrow> golib \<Rightarrow> env \<Rightarrow> 'q request \<Rightarrow> world \<Rightarrow> response \<times> world" where
  "handleDownloadToken a L e r w =
     (if Method r \<noteq> ''GET'' then (httpError ''method not allowed'' 405, w)
      else
        let token = pathToken L r in
        if token = '''' then (httpError ''not found'' 404, w)
        else
          (case loadTokens w of
            Inl err \<Rightarrow> (httpErrorOf '''' err 500, w)
          | Inr ts \<Rightarrow>
          (case tokenIndex token ts of
            None \<Rightarrow> (httpError ''not found'' 404, w)
          | Some idx \<Rightarrow>
              if Used (ts ! idx) then (httpError ''gone'' 410, w)
              else if tokExpiresAt (ts ! idx) < now1 e then (httpError ''gone'' 410, w)
              else
                let ts' = ts[idx := (ts ! idx)\<lparr>Used := True\<rparr>] in
                (case saveTokens e ts' w of
                  (Some err, w1) \<Rightarrow> (httpErrorOf '''' err 500, w1)
                | (None, w1) \<Rightarrow>
                (case findClientAndState w1 (ClientID (ts' ! idx)) of
                  Inl err \<Rightarrow> (httpError ''not found'' 404, w1)
                | Inr (c, st) \<Rightarrow>
                    if expired (now2 e) c then (httpError ''expired'' 410, w1)
                    else
                      (\<lparr>status = 200, body = ConfigFile (renderClientConfig a L w1 c st)\<rparr>,
                       w1))))))"

subsection \<open>Sequences of allocations\<close>


subsection \<open>Example inputs\<close>

text \<open>
  The library on the inputs of the examples: what \<open>net.ParseCIDR\<close> returns for the subnet
  \<open>10.8.0.0/24\<close>, what \<open>time.Parse\<close> returns for two timestamps (the start of the year
  2030 in UTC, which encodes, and in the zone \<open>+24:00\<close>, a day earlier, which does not; in
  nanoseconds), and \<open>strings.TrimSpace\<close> on ASCII text.
\<close>

definition asciiSpace :: "char \<Rightarrow> bool" where
  "asciiSpace c = (c \<in> set [CHR 0x09, CHR 0x0A, CHR 0x0B, CHR 0x0C, CHR 0x0D, CHR 0x20])"

definition trimSpaceASCII :: "string \<Rightarrow> string" where
  "trimSpaceASCII s = rev (dropWhile asciiSpace (rev (dropWhile asciiSpace s)))"

definition exampleLib :: golib where
  "exampleLib =
     \<lparr>ParseCIDR = map_of [(''10.8.0.0/24'', \<lparr>netIP = [10, 8, 0, 0], maskOnes = 24\<rparr>)],
      ParseRFC3339 = map_of [(''2030-01-01T00:00:00Z'', (1893456000000000000, True)),
                             (''2030-01-01T00:00:00+24:00'', (1893369600000000000, False))],
      TrimSpace = trimSpaceASCII\<rparr>"

definition app0 :: app where
  "app0 = \<lparr>dataDir = ''/data'', iface = ''wg0'', port = 51820, endpoint = ''vpn.example.org:51820''\<rparr>"

text \<open>The server state as \<open>ensureServerState\<close> writes it at the first start, with the cursor
  at 2, and the state after two clients have been created.\<close>

definition stFresh :: serverState where
  "stFresh = \<lparr>ServerPrivateKey = ''SPRIV'', ServerPublicKey = ''SPUB'', SubnetCIDR = ''10.8.0.0/24'',
              ServerIP = ''10.8.0.1'', NextHost = 2\<rparr>"

definition st0 :: serverState where
  "st0 = stFresh\<lparr>NextHost := 4\<rparr>"

text \<open>A gateway at host 254 whose cursor has reached 254.\<close>

definition stEdge :: serverState where
  "stEdge = \<lparr>ServerPrivateKey = ''SPRIV'', ServerPublicKey = ''SPUB'', SubnetCIDR = ''10.8.0.0/24'',
             ServerIP = ''10.8.0.254'', NextHost = 254\<rparr>"

text \<open>Two clients: \<open>alice\<close> never expires, \<open>bob\<close> expired at instant 2000.\<close>

definition alice :: client where
  "alice = \<lparr>ID = ''c1'', Name = ''alice'', PublicKey = ''APUB'', PrivKey = ''APRIV'',
            Address = ''10.8.0.2/32'', CreatedAt = 1000, ExpiresAt = None\<rparr>"

definition bob :: client where
  "bob = \<lparr>ID = ''c2'', Name = ''bob'', PublicKey = ''BPUB'', PrivKey = ''BPRIV'',
          Address = ''10.8.0.3/32'', CreatedAt = 1000, ExpiresAt = Some 2000\<rparr>"

text \<open>A request environment at instant 5000 in which every write and the command succeed.\<close>

definition env0 :: env where
  "env0 = \<lparr>now1 = 5000, now2 = 5001, keygen = Some (''KPRIV'', ''KPUB''), newID = ''id1'',
           newToken = ''tok1'', saveClientsErr = None, writeServerStateErr = None,
           saveTokensErr = None, writeConfErr = None, awgErr = False\<rparr>"

text \<open>The files at the first start, and the files with the two clients and three tokens:
  \<open>tokA\<close> for \<open>alice\<close>, \<open>tokB\<close> for \<open>bob\<close>, \<open>tokZ\<close> for a client that has been deleted;
  all unused, expiring at 9000.\<close>

definition tokens0 :: "dlToken list" where
  "tokens0 =
     [\<lparr>Token = ''tokA'', ClientID = ''c1'', tokExpiresAt = 9000, Used = False\<rparr>,
      \<lparr>Token = ''tokB'', ClientID = ''c2'', tokExpiresAt = 9000, Used = False\<rparr>,
      \<lparr>Token = ''tokZ'', ClientID = ''c9'', tokExpiresAt = 9000, Used = False\<rparr>]"

definition worldFresh :: world where
  "worldFresh = \<lparr>serverFile = Content stFresh, clientsFile = Missing, tokensFile = Missing,
                 confFile = Missing, extraInterfaceFile = Missing, allowedIPsFile = Missing\<rparr>"

definition world0 :: world where
  "world0 = \<lparr>serverFile = Content st0, clientsFile = Content [alice, bob],
             tokensFile = Content tokens0, confFile = Missing,
             extraInterfaceFile = Missing, allowedIPsFile = Missing\<rparr>"

text \<open>A request to create the client \<open>alice\<close> with no expiry.\<close>

definition reqCreate :: "createReq request" where
  "reqCreate = \<lparr>Method = ''POST'', Path = ''/api/clients'',
                Body = JSONValue \<lparr>reqName = ''alice'', reqExpiresAt = None\<rparr> False\<rparr>"

text \<open>A request to create the client \<open>dave\<close> with an expiry in the zone \<open>+24:00\<close>.\<close>

definition reqCreateZone :: "createReq request" where
  "reqCreateZone = \<lparr>Method = ''POST'', Path = ''/api/clients'',
     Body = JSONValue \<lparr>reqName = ''dave'',
                       reqExpiresAt = Some ''2030-01-01T00:00:00+24:00''\<rparr> False\<rparr>"

text \<open>A request to redeem the token \<open>tok\<close>.\<close>

definition redeem :: "string \<Rightarrow> unit request" where
  "redeem tok = \<lparr>Method = ''GET'', Path = ''/dl/'' @ tok, Body = EmptyBody\<rparr>"

lemmas example_defs =
  exampleLib_def app0_def st0_def stFresh_def stEdge_def alice_def bob_def env0_def
  tokens0_def world0_def worldFresh_def reqCreate_def reqCreateZone_def redeem_def
  trimSpaceASCII_def asciiSpace_def

section \<open>Decimal rendering\<close>

lemma digit_inj: "m < 10 \<Longrightarrow> n < 10 \<Longrightarrow> digit m = digit n \<Longrightarrow> m = n"
  unfolding digit_def
  using nth_eq_iff_index_eq [of "''0123456789''" m n] by simp

lemma uitoa_small: "n < 10 \<Longrightarrow> uitoa n = [digit n]"
  by (subst uitoa.simps) simp

lemma uitoa_big: "\<not> n < 10 \<Longrightarrow> uitoa n = uitoa (n div 10) @ [digit (n mod 10)]"
  by (subst uitoa.simps) simp

lemma uitoa_nonempty: "uitoa n \<noteq> []" "[] \<noteq> uitoa n"
  by (cases "n < 10"; simp add: uitoa_small uitoa_big)+

lemma uitoa_inj: "uitoa m = uitoa n \<Longrightarrow> m = n"
proof (induction m arbitrary: n rule: uitoa.induct)
  case (1 m)
  show ?case
  proof (cases "m < 10")
    case small_m: True
    show ?thesis
    proof (cases "n < 10")
      case True
      with small_m "1.prems" show ?thesis
        by (simp add: uitoa_small digit_inj)
    next
      case False
      with small_m "1.prems" show ?thesis
        by (simp add: uitoa_small uitoa_big uitoa_nonempty)
    qed
  next
    case big_m: False
    show ?thesis
    proof (cases "n < 10")
      case True
      with big_m "1.prems" show ?thesis
        by (simp add: uitoa_small uitoa_big uitoa_nonempty)
    next
      case False
      with big_m "1.prems" have hi: "uitoa (m div 10) = uitoa (n div 10)"
        and lo: "digit (m mod 10) = digit (n mod 10)"
        by (simp_all add: uitoa_big)
      from "1.IH" [OF big_m hi] have "m div 10 = n div 10" .
      moreover from lo have "m mod 10 = n mod 10"
        by (simp add: digit_inj)
      ultimately show ?thesis
        by (metis div_mult_mod_eq)
    qed
  qed
qed

section \<open>Listing clients\<close>

lemma foldl_toPublic: "foldl (\<lambda>out c. out @ [toPublic c]) acc cs = acc @ map toPublic cs"
  by (induction cs arbitrary: acc) simp_all

text \<open>
  Claim C7. For every stored client list, a GET on the clients endpoint answers 200 with,
  for each client in order, exactly its id, name, public key, address, creation time and
  optional expiry, and leaves the files as they were; the answer is the same whatever the
  private keys of the stored clients are, so no private key reaches the listing. With no
  clients file the listing is empty.
\<close>

theorem list_clients_public_projection:
  "handleClients a L e \<lparr>Method = ''GET'', Path = p, Body = b\<rparr> (w\<lparr>clientsFile := Content cs\<rparr>) =
     (\<lparr>status = 200,
       body = ClientList (map (\<lambda>c. \<lparr>pubID = ID c, pubName = Name c, pubPublicKey = PublicKey c,
                                      pubAddress = Address c, pubCreatedAt = CreatedAt c,
                                      pubExpiresAt = ExpiresAt c\<rparr>) cs)\<rparr>,
      w\<lparr>clientsFile := Content cs\<rparr>)
   \<and> fst (handleClients a L e \<lparr>Method = ''GET'', Path = p, Body = b\<rparr>
            (w\<lparr>clientsFile := Content (map (\<lambda>c. c\<lparr>PrivKey := k c\<rparr>) cs)\<rparr>)) =
     fst (handleClients a L e \<lparr>Method = ''GET'', Path = p, Body = b\<rparr> (w\<lparr>clientsFile := Content cs\<rparr>))
   \<and> handleClients a L e \<lparr>Method = ''GET'', Path = p, Body = b\<rparr> (w\<lparr>clientsFile := Missing\<rparr>) =
     (\<lparr>status = 200, body = ClientList []\<rparr>, w\<lparr>clientsFile := Missing\<rparr>)"
proof -
  have proj: "map toPublic cs =
      map (\<lambda>c. \<lparr>pubID = ID c, pubName = Name c, pubPublicKey = PublicKey c,
                   pubAddress = Address c, pubCreatedAt = CreatedAt c,
                   pubExpiresAt = ExpiresAt c\<rparr>) cs"
    by (simp add: toPublic_def)
  have indep: "map toPublic (map (\<lambda>c. c\<lparr>PrivKey := k c\<rparr>) cs) = map toPublic cs"
    by (simp add: toPublic_def)
  show ?thesis
    unfolding handleClients_def loadClients_def foldl_toPublic
    using proj indep by simp
qed

section \<open>The gateway configuration\<close>

lemma writePeers_eq:
  "writePeers now cs b =
     b @ concat (map (\<lambda>c. ''[Peer]\<newline>'' @ ''PublicKey = '' @ PublicKey c @ ''\<newline>''
                          @ ''AllowedIPs = '' @ beforeSlash (Address c) @ ''/32\<newline>'' @ ''\<newline>'')
                     (filter (\<lambda>c. \<not> expired now c) cs))"
  by (induction cs arbitrary: b) simp_all

lemma itoa_digit: "0 \<le> p \<Longrightarrow> p < 10 \<Longrightarrow> itoa p = [''0123456789'' ! nat p]"
  by (simp add: itoa_def uitoa_small digit_def)

lemma itoa_tens: "10 \<le> p \<Longrightarrow> itoa p = itoa (p div 10) @ itoa (p mod 10)"
proof -
  assume big: "10 \<le> p"
  then have "\<not> nat p < 10" by simp
  then have "uitoa (nat p) = uitoa (nat p div 10) @ [digit (nat p mod 10)]"
    by (rule uitoa_big)
  moreover from big have "nat (p div 10) = nat p div 10" "nat (p mod 10) = nat p mod 10"
    by (simp_all add: nat_div_distrib nat_mod_distrib)
  moreover have "nat p mod 10 < 10" by simp
  moreover from big have "\<not> p div 10 < 0" "\<not> p mod 10 < 0" "\<not> p < 0"
    by (simp_all add: pos_imp_zdiv_neg_iff)
  ultimately show ?thesis
    by (simp add: itoa_def uitoa_small)
qed

lemma itoa_minus: "p < 0 \<Longrightarrow> itoa p = ''-'' @ itoa (- p)"
  by (simp add: itoa_def)

lemma beforeSlash_cut:
  "CHR ''/'' \<notin> set ip \<Longrightarrow> beforeSlash ip = ip \<and> beforeSlash (ip @ ''/'' @ rest) = ip"
  by (induction ip) (auto simp: beforeSlash_def)

text \<open>
  Claim C6. The text that \<open>applyServerConfig\<close> writes to the configuration file, rendered
  at instant \<open>now\<close>, is the interface section (the gateway's private key, the listen port,
  an empty line) followed, in the order of the client list, by one peer block (the public
  key, and the address before its slash with \<open>/32\<close>) for each client that has no expiry or
  whose expiry is not before \<open>now\<close>; a client whose expiry is before \<open>now\<close> has no block.
  The port is printed in decimal: one digit below ten, the digits of the tenth part and then
  the last digit from ten on, a minus sign first when negative. The address before its slash
  is the whole address when it has no slash, and what stands before the first slash
  otherwise.
\<close>

theorem gateway_config_render:
  "snd (applyServerConfig a (e\<lparr>writeConfErr := None\<rparr>) now st cs w) =
     w\<lparr>confFile := Content (serverConfigText a now st cs)\<rparr>
   \<and> serverConfigText a now st cs =
     ''[Interface]\<newline>'' @ ''PrivateKey = '' @ ServerPrivateKey st @ ''\<newline>''
       @ ''ListenPort = '' @ itoa (port a) @ ''\<newline>'' @ ''\<newline>''
       @ concat (map (\<lambda>c. ''[Peer]\<newline>'' @ ''PublicKey = '' @ PublicKey c @ ''\<newline>''
                          @ ''AllowedIPs = '' @ beforeSlash (Address c) @ ''/32\<newline>'' @ ''\<newline>'')
                     (filter (\<lambda>c. case ExpiresAt c of None \<Rightarrow> True | Some t \<Rightarrow> \<not> t < now) cs))
   \<and> (0 \<le> p \<and> p < 10 \<longrightarrow> itoa p = [''0123456789'' ! nat p])
   \<and> (10 \<le> p \<longrightarrow> itoa p = itoa (p div 10) @ itoa (p mod 10))
   \<and> (p < 0 \<longrightarrow> itoa p = ''-'' @ itoa (- p))
   \<and> (CHR ''/'' \<notin> set ip \<longrightarrow> beforeSlash ip = ip \<and> beforeSlash (ip @ ''/'' @ rest) = ip)"
proof -
  have "(\<lambda>c. \<not> expired now c) = (\<lambda>c. case ExpiresAt c of None \<Rightarrow> True | Some t \<Rightarrow> \<not> t < now)"
    by (auto simp: expired_def fun_eq_iff split: option.splits)
  then have "snd (applyServerConfig a (e\<lparr>writeConfErr := None\<rparr>) now st cs w) =
       w\<lparr>confFile := Content (serverConfigText a now st cs)\<rparr>
     \<and> serverConfigText a now st cs =
       ''[Interface]\<newline>'' @ ''PrivateKey = '' @ ServerPrivateKey st @ ''\<newline>''
         @ ''ListenPort = '' @ itoa (port a) @ ''\<newline>'' @ ''\<newline>''
         @ concat (map (\<lambda>c. ''[Peer]\<newline>'' @ ''PublicKey = '' @ PublicKey c @ ''\<newline>''
                            @ ''AllowedIPs = '' @ beforeSlash (Address c) @ ''/32\<newline>'' @ ''\<newline>'')
                       (filter (\<lambda>c. case ExpiresAt c of None \<Rightarrow> True | Some t \<Rightarrow> \<not> t < now) cs))"
    by (simp add: applyServerConfig_def serverConfigText_def writePeers_eq)
  with itoa_digit [of p] itoa_tens [of p] itoa_minus [of p] beforeSlash_cut [of ip rest]
  show ?thesis by blast
qed

text \<open>The theorem on the two example clients at instant 5000: a block for \<open>alice\<close> with her
  address \<open>10.8.0.2\<close> and \<open>/32\<close>, none for \<open>bob\<close>, who expired at 2000, and the port 51820.\<close>

theorem gateway_config_render_witness:
  "snd (applyServerConfig app0 (env0\<lparr>writeConfErr := None\<rparr>) 5000 st0 [alice, bob] world0) =
     world0\<lparr>confFile := Content
       (''[Interface]\<newline>PrivateKey = SPRIV\<newline>ListenPort = 51820\<newline>\<newline>''
        @ ''[Peer]\<newline>PublicKey = APUB\<newline>AllowedIPs = 10.8.0.2/32\<newline>\<newline>'')\<rparr>
   \<and> serverConfigText app0 5000 st0 [alice, bob] =
     ''[Interface]\<newline>PrivateKey = SPRIV\<newline>ListenPort = 51820\<newline>\<newline>''
     @ ''[Peer]\<newline>PublicKey = APUB\<newline>AllowedIPs = 10.8.0.2/32\<newline>\<newline>''
   \<and> itoa 7 = ''7'' \<and> itoa 51820 = ''51820'' \<and> itoa (- 3) = ''-3''
   \<and> beforeSlash ''10.8.0.2'' = ''10.8.0.2'' \<and> beforeSlash ''10.8.0.2/32'' = ''10.8.0.2''"
proof -
  have port: "itoa 51820 = ''51820''"
    using gateway_config_render [where p = 51820, THEN conjunct2, THEN conjunct2, THEN conjunct2,
        THEN conjunct1]
    by (simp add: itoa_def uitoa.simps digit_def)
  have small: "itoa 7 = ''7''"
    using gateway_config_render [where p = 7, THEN conjunct2, THEN conjunct2, THEN conjunct1]
    by simp
  have minus: "itoa (- 3) = ''-3''"
    using gateway_config_render [where p = "- 3", THEN conjunct2, THEN conjunct2,
        THEN conjunct2, THEN conjunct2, THEN conjunct1]
      gateway_config_render [where p = 3, THEN conjunct2, THEN conjunct2, THEN conjunct1]
    by simp
  have cut: "beforeSlash ''10.8.0.2'' = ''10.8.0.2'' \<and> beforeSlash ''10.8.0.2/32'' = ''10.8.0.2''"
    using gateway_config_render [where ip = "''10.8.0.2''" and rest = "''32''", THEN conjunct2,
        THEN conjunct2, THEN conjunct2, THEN conjunct2, THEN conjunct2]
    by simp
  have rendered: "serverConfigText app0 5000 st0 [alice, bob] =
     ''[Interface]\<newline>PrivateKey = SPRIV\<newline>ListenPort = 51820\<newline>\<newline>''
     @ ''[Peer]\<newline>PublicKey = APUB\<newline>AllowedIPs = 10.8.0.2/32\<newline>\<newline>''"
    using gateway_config_render [where a = app0 and now = 5000 and st = st0
        and cs = "[alice, bob]", THEN conjunct2, THEN conjunct1] port cut
    by (simp add: example_defs)
  have written: "snd (applyServerConfig app0 (env0\<lparr>writeConfErr := None\<rparr>) 5000 st0
        [alice, bob] world0) =
      world0\<lparr>confFile := Content (serverConfigText app0 5000 st0 [alice, bob])\<rparr>"
    using gateway_config_render [where a = app0 and now = 5000 and st = st0
        and cs = "[alice, bob]" and e = env0 and w = world0, THEN conjunct1] .
  from written rendered small port minus cut show ?thesis by simp
qed

section \<open>The address allocator\<close>

text \<open>
  Claim C3, at the input where the code leaves the range 2 to 254: the gateway is at host
  254 and the cursor is 254. The candidate is the gateway's own address, so the allocator
  steps to 255 without checking the bound again, and returns the broadcast address; the
  cursor is left at 256.
\<close>

theorem allocator_returns_host_255:
  "allocateNextAddress exampleLib stEdge = Inr (''10.8.0.255/32'', stEdge\<lparr>NextHost := 256\<rparr>)"
  by (simp add: allocateNextAddress_def example_defs To4_def IPv4String_def byte_def
      uitoa.simps digit_def)

section \<open>Issuing one-time links\<close>

text \<open>
  Claim C8, at a positive \<open>ttlSeconds\<close> whose count of nanoseconds does not fit 64 bits:
  with \<open>ttlSeconds = 9223372037\<close> the duration wraps around to a negative one, and the
  token issued at instant 5000 expires about 292 years before that instant.
\<close>

theorem link_ttl_wraps_around:
  "createOneTimeLink app0 env0
      \<lparr>Method = ''POST'', Path = ''/api/clients/c1/link'',
       Body = JSONValue \<lparr>TTLSeconds = Some 9223372037\<rparr> False\<rparr> ''c1'' world0 =
     (\<lparr>status = 200, body = LinkJSON ''/dl/tok1'' (5000 - 9223372036709551616)\<rparr>,
      world0\<lparr>tokensFile := Content (tokens0 @
         [\<lparr>Token = ''tok1'', ClientID = ''c1'', tokExpiresAt = 5000 - 9223372036709551616,
           Used = False\<rparr>])\<rparr>)"
  by (simp add: createOneTimeLink_def loadClients_def loadTokens_def saveTokens_def
      seconds_def wrap64_def example_defs)

section \<open>Allocations in sequence and the persisted cursor\<close>


lemma IPv4String_inj: "IPv4String a b c d = IPv4String a b c d' \<Longrightarrow> d = d'"
  by (simp add: IPv4String_def uitoa_inj)

lemma byte_small: "0 \<le> n \<Longrightarrow> n < 256 \<Longrightarrow> byte n = nat n"
  by (simp add: byte_def)

text \<open>What a successful allocation returns.\<close>

lemma allocate_ok:
  assumes "allocateNextAddress L st = Inr (addr, st')"
  shows "\<exists>ipn base h. ParseCIDR L (SubnetCIDR st) = Some ipn \<and> To4 (netIP ipn) = Some base
           \<and> maskOnes ipn = 24 \<and> 2 \<le> NextHost st \<and> NextHost st \<le> h \<and> h \<le> 255
           \<and> addr = IPv4String (base ! 0) (base ! 1) (base ! 2) (nat h) @ ''/32''
           \<and> IPv4String (base ! 0) (base ! 1) (base ! 2) (nat h) \<noteq> ServerIP st
           \<and> st' = st\<lparr>NextHost := h + 1\<rparr>"
proof -
  from assms obtain ipn base where p: "ParseCIDR L (SubnetCIDR st) = Some ipn"
    and b: "To4 (netIP ipn) = Some base" and m: "maskOnes ipn = 24"
    and lo: "2 \<le> NextHost st" and hi: "NextHost st \<le> 254"
    by (auto simp: allocateNextAddress_def split: option.splits if_splits)
  let ?ip = "\<lambda>n. IPv4String (base ! 0) (base ! 1) (base ! 2) n"
  show ?thesis
  proof (cases "?ip (byte (NextHost st)) = ServerIP st")
    case False
    with assms p b m lo hi
    have "addr = ?ip (byte (NextHost st)) @ ''/32''" "st' = st\<lparr>NextHost := NextHost st + 1\<rparr>"
      by (simp_all add: allocateNextAddress_def Let_def)
    with False p b m lo hi show ?thesis
      by (intro exI [of _ ipn] exI [of _ base] exI [of _ "NextHost st"]) (simp add: byte_small)
  next
    case True
    with assms p b m lo hi
    have "addr = ?ip (byte (NextHost st + 1)) @ ''/32''" "st' = st\<lparr>NextHost := NextHost st + 1 + 1\<rparr>"
      by (simp_all add: allocateNextAddress_def Let_def)
    moreover have "?ip (nat (NextHost st + 1)) \<noteq> ServerIP st"
    proof
      assume "?ip (nat (NextHost st + 1)) = ServerIP st"
      with True have "?ip (nat (NextHost st + 1)) = ?ip (byte (NextHost st))" by simp
      then have "nat (NextHost st + 1) = byte (NextHost st)" by (rule IPv4String_inj)
      with lo hi show False by (simp add: byte_small)
    qed
    ultimately show ?thesis using p b m lo hi
      by (intro exI [of _ ipn] exI [of _ base] exI [of _ "NextHost st + 1"]) (simp add: byte_small)
  qed
qed









section \<open>A failed apply after the records were written\<close>



section \<open>Issuing a link: the client and the request body\<close>

lemma find_ID_None: "(find (\<lambda>c. ID c = cid) cs = None) = (cid \<notin> set (map ID cs))"
  by (auto simp: find_None_iff)

text \<open>
  Claim C9. When the client list holds no client with the given id, issuing a link answers
  404 and leaves every file as it was, so no token is written. When it holds one, the tokens
  load and the write succeeds, issuing answers 200 and appends one unused token for that
  client; the client's expiry is not looked at, so this holds for an expired client too.
\<close>

theorem issue_link_needs_existing_client_only:
  "(loadClients w = Inr cs \<and> cid \<notin> set (map ID cs)
      \<longrightarrow> createOneTimeLink a e r cid w = (httpError ''not found'' 404, w))
   \<and> (loadClients w = Inr cs \<and> cid \<in> set (map ID cs) \<and> loadTokens w = Inr ts
        \<and> saveTokensErr e = None
      \<longrightarrow> (\<exists>exp. createOneTimeLink a e r cid w =
             (\<lparr>status = 200, body = LinkJSON (''/dl/'' @ newToken e) exp\<rparr>,
              w\<lparr>tokensFile := Content (ts @ [\<lparr>Token = newToken e, ClientID = cid,
                                                 tokExpiresAt = exp, Used = False\<rparr>])\<rparr>)))"
  by (simp add: createOneTimeLink_def find_ID_None saveTokens_def Let_def)

text \<open>The theorem at instant 5000: no client \<open>c7\<close> exists, and \<open>bob\<close> (client \<open>c2\<close>) expired
  at 2000.\<close>

theorem issue_link_needs_existing_client_only_witness:
  "createOneTimeLink app0 env0
      \<lparr>Method = ''POST'', Path = ''/api/clients/c7/link'', Body = EmptyBody\<rparr> ''c7'' world0 =
     (\<lparr>status = 404, body = Text ''not found''\<rparr>, world0)
   \<and> expired (now1 env0) bob
   \<and> (\<exists>exp. createOneTimeLink app0 env0
          \<lparr>Method = ''POST'', Path = ''/api/clients/c2/link'', Body = EmptyBody\<rparr> ''c2'' world0 =
        (\<lparr>status = 200, body = LinkJSON ''/dl/tok1'' exp\<rparr>,
         world0\<lparr>tokensFile := Content (tokens0 @ [\<lparr>Token = ''tok1'', ClientID = ''c2'',
                                                     tokExpiresAt = exp, Used = False\<rparr>])\<rparr>))"
proof -
  have clients: "loadClients world0 = Inr [alice, bob]"
    and tokens: "loadTokens world0 = Inr tokens0" and save: "saveTokensErr env0 = None"
    by (simp_all add: loadClients_def loadTokens_def example_defs)
  have absent: "''c7'' \<notin> set (map ID [alice, bob])" and present: "''c2'' \<in> set (map ID [alice, bob])"
    by (simp_all add: example_defs)
  have late: "expired (now1 env0) bob"
    by (simp add: expired_def example_defs)
  note missing = issue_link_needs_existing_client_only
    [where w = world0 and cs = "[alice, bob]" and cid = "''c7''" and a = app0 and e = env0
       and r = "\<lparr>Method = ''POST'', Path = ''/api/clients/c7/link'', Body = EmptyBody\<rparr>",
     THEN conjunct1, rule_format, OF conjI [OF clients absent]]
  note issued = issue_link_needs_existing_client_only
    [where w = world0 and cs = "[alice, bob]" and cid = "''c2''" and ts = tokens0 and a = app0
       and e = env0
       and r = "\<lparr>Method = ''POST'', Path = ''/api/clients/c2/link'', Body = EmptyBody\<rparr>",
     THEN conjunct2, rule_format, OF conjI [OF clients conjI [OF present conjI [OF tokens save]]]]
  from missing issued late show ?thesis
    by (simp add: httpError_def env0_def)
qed

text \<open>Up to 9223372036 seconds the count of nanoseconds of a duration is exact.\<close>

lemma seconds_exact: "0 \<le> n \<Longrightarrow> n \<le> 9223372036 \<Longrightarrow> seconds n = n * 1000000000"
  by (simp add: seconds_def wrap64_def)

text \<open>
  Claim C10, as the code has it. Issuing a link never answers 400: the error of decoding
  the body is discarded, and the answer is that of a request whose body is the value that
  decoding stored. For an empty body and for a body that does not start with a well-formed
  JSON value nothing is stored, and for an existing client (the tokens loading and the write
  succeeding) the link is issued with an expiry 3600 seconds after the issue time. A body
  that starts with a well-formed JSON value is decoded from that value whatever follows it:
  with a \<open>ttlSeconds\<close> between 1 and 9223372036 and text after the value, the link expires
  that many seconds after the issue time.
\<close>

theorem issue_link_ignores_bad_body:
  "status (fst (createOneTimeLink a e \<lparr>Method = m, Path = p, Body = b\<rparr> cid w)) \<noteq> 400
   \<and> createOneTimeLink a e \<lparr>Method = m, Path = p, Body = b\<rparr> cid w =
       createOneTimeLink a e
         \<lparr>Method = m, Path = p,
          Body = JSONValue (fst (Decode \<lparr>TTLSeconds = None\<rparr> b)) False\<rparr> cid w
   \<and> (b = EmptyBody \<or> b = MalformedJSON \<longrightarrow>
        fst (Decode \<lparr>TTLSeconds = None\<rparr> b) = \<lparr>TTLSeconds = None\<rparr>
        \<and> (loadClients w = Inr cs \<and> cid \<in> set (map ID cs) \<and> loadTokens w = Inr ts
              \<and> saveTokensErr e = None \<longrightarrow>
            createOneTimeLink a e \<lparr>Method = m, Path = p, Body = b\<rparr> cid w =
              (\<lparr>status = 200,
                body = LinkJSON (''/dl/'' @ newToken e) (now1 e + 3600 * 1000000000)\<rparr>,
               w\<lparr>tokensFile := Content (ts @ [\<lparr>Token = newToken e, ClientID = cid,
                     tokExpiresAt = now1 e + 3600 * 1000000000, Used = False\<rparr>])\<rparr>)))
   \<and> (b = LeadingJSON \<lparr>TTLSeconds = Some n\<rparr> err \<and> 0 < n \<and> n \<le> 9223372036
        \<and> loadClients w = Inr cs \<and> cid \<in> set (map ID cs) \<and> loadTokens w = Inr ts
        \<and> saveTokensErr e = None \<longrightarrow>
        createOneTimeLink a e \<lparr>Method = m, Path = p, Body = b\<rparr> cid w =
          (\<lparr>status = 200,
            body = LinkJSON (''/dl/'' @ newToken e) (now1 e + n * 1000000000)\<rparr>,
           w\<lparr>tokensFile := Content (ts @ [\<lparr>Token = newToken e, ClientID = cid,
                 tokExpiresAt = now1 e + n * 1000000000, Used = False\<rparr>])\<rparr>))
   \<and> fst (Decode \<lparr>TTLSeconds = None\<rparr> (JSONValue q err)) = q
   \<and> fst (Decode \<lparr>TTLSeconds = None\<rparr> (LeadingJSON q err)) = q"
proof (intro conjI impI)
  show "fst (Decode \<lparr>TTLSeconds = None\<rparr> (JSONValue q err)) = q"
    and "fst (Decode \<lparr>TTLSeconds = None\<rparr> (LeadingJSON q err)) = q"
    by simp_all
  show "status (fst (createOneTimeLink a e \<lparr>Method = m, Path = p, Body = b\<rparr> cid w)) \<noteq> 400"
    by (simp add: createOneTimeLink_def saveTokens_def httpError_def httpErrorOf_def Let_def
        split: sum.split option.split)
  show "createOneTimeLink a e \<lparr>Method = m, Path = p, Body = b\<rparr> cid w =
       createOneTimeLink a e
         \<lparr>Method = m, Path = p,
          Body = JSONValue (fst (Decode \<lparr>TTLSeconds = None\<rparr> b)) False\<rparr> cid w"
    by (simp add: createOneTimeLink_def)
next
  assume "b = EmptyBody \<or> b = MalformedJSON"
  then show "fst (Decode \<lparr>TTLSeconds = None\<rparr> b) = \<lparr>TTLSeconds = None\<rparr>"
    by auto
next
  assume "b = EmptyBody \<or> b = MalformedJSON"
    and "loadClients w = Inr cs \<and> cid \<in> set (map ID cs) \<and> loadTokens w = Inr ts
          \<and> saveTokensErr e = None"
  then show "createOneTimeLink a e \<lparr>Method = m, Path = p, Body = b\<rparr> cid w =
      (\<lparr>status = 200,
        body = LinkJSON (''/dl/'' @ newToken e) (now1 e + 3600 * 1000000000)\<rparr>,
       w\<lparr>tokensFile := Content (ts @ [\<lparr>Token = newToken e, ClientID = cid,
             tokExpiresAt = now1 e + 3600 * 1000000000, Used = False\<rparr>])\<rparr>)"
    by (auto simp: createOneTimeLink_def find_ID_None saveTokens_def Let_def seconds_def
        wrap64_def)
next
  assume "b = LeadingJSON \<lparr>TTLSeconds = Some n\<rparr> err \<and> 0 < n \<and> n \<le> 9223372036
        \<and> loadClients w = Inr cs \<and> cid \<in> set (map ID cs) \<and> loadTokens w = Inr ts
        \<and> saveTokensErr e = None"
  then show "createOneTimeLink a e \<lparr>Method = m, Path = p, Body = b\<rparr> cid w =
      (\<lparr>status = 200,
        body = LinkJSON (''/dl/'' @ newToken e) (now1 e + n * 1000000000)\<rparr>,
       w\<lparr>tokensFile := Content (ts @ [\<lparr>Token = newToken e, ClientID = cid,
             tokExpiresAt = now1 e + n * 1000000000, Used = False\<rparr>])\<rparr>)"
    by (simp add: createOneTimeLink_def find_ID_None saveTokens_def Let_def seconds_exact)
qed

text \<open>The theorem for the client \<open>alice\<close> at instant 5000: a malformed body, and a body that
  starts with a value whose \<open>ttlSeconds\<close> is 60.\<close>

theorem issue_link_ignores_bad_body_witness:
  "createOneTimeLink app0 env0
      \<lparr>Method = ''POST'', Path = ''/api/clients/c1/link'', Body = MalformedJSON\<rparr> ''c1'' world0 =
     (\<lparr>status = 200, body = LinkJSON ''/dl/tok1'' 3600000005000\<rparr>,
      world0\<lparr>tokensFile := Content (tokens0 @ [\<lparr>Token = ''tok1'', ClientID = ''c1'',
                 tokExpiresAt = 3600000005000, Used = False\<rparr>])\<rparr>)
   \<and> createOneTimeLink app0 env0
      \<lparr>Method = ''POST'', Path = ''/api/clients/c1/link'',
       Body = LeadingJSON \<lparr>TTLSeconds = Some 60\<rparr> True\<rparr> ''c1'' world0 =
     (\<lparr>status = 200, body = LinkJSON ''/dl/tok1'' 60000005000\<rparr>,
      world0\<lparr>tokensFile := Content (tokens0 @ [\<lparr>Token = ''tok1'', ClientID = ''c1'',
                 tokExpiresAt = 60000005000, Used = False\<rparr>])\<rparr>)"
proof -
  let ?b = "MalformedJSON :: linkReq reqBody"
  let ?g = "LeadingJSON \<lparr>TTLSeconds = Some 60\<rparr> True"
  have bad: "?b = EmptyBody \<or> ?b = MalformedJSON"
    by simp
  have ready: "loadClients world0 = Inr [alice, bob] \<and> ''c1'' \<in> set (map ID [alice, bob])
      \<and> loadTokens world0 = Inr tokens0 \<and> saveTokensErr env0 = None"
    by (simp add: loadClients_def loadTokens_def example_defs)
  have leading: "?g = LeadingJSON \<lparr>TTLSeconds = Some 60\<rparr> True \<and> (0::int) < 60
      \<and> (60::int) \<le> 9223372036
      \<and> loadClients world0 = Inr [alice, bob] \<and> ''c1'' \<in> set (map ID [alice, bob])
      \<and> loadTokens world0 = Inr tokens0 \<and> saveTokensErr env0 = None"
    using ready by simp
  note malformed = issue_link_ignores_bad_body
    [where b = ?b and a = app0 and e = env0 and m = "''POST''" and p = "''/api/clients/c1/link''"
       and cid = "''c1''" and w = world0 and cs = "[alice, bob]" and ts = tokens0,
     THEN conjunct2, THEN conjunct2, THEN conjunct1, rule_format, OF bad,
     THEN conjunct2, rule_format, OF ready]
  note garbage = issue_link_ignores_bad_body
    [where b = ?g and a = app0 and e = env0 and m = "''POST''" and p = "''/api/clients/c1/link''"
       and cid = "''c1''" and w = world0 and cs = "[alice, bob]" and ts = tokens0 and n = 60
       and err = True,
     THEN conjunct2, THEN conjunct2, THEN conjunct2, THEN conjunct1, rule_format, OF leading]
  from malformed garbage show ?thesis
    by (simp add: env0_def)
qed

text \<open>
  Claim C10 as stated fails: the body \<open>{"ttlSeconds": 120} garbage\<close> is not well-formed
  JSON, and the link is issued with an expiry 120 seconds, not 3600 seconds, after the
  issue time.
\<close>

theorem leading_json_ttl_is_used:
  "createOneTimeLink app0 env0
      \<lparr>Method = ''POST'', Path = ''/api/clients/c1/link'',
       Body = LeadingJSON \<lparr>TTLSeconds = Some 120\<rparr> False\<rparr> ''c1'' world0 =
     (\<lparr>status = 200, body = LinkJSON ''/dl/tok1'' 120000005000\<rparr>,
      world0\<lparr>tokensFile := Content (tokens0 @ [\<lparr>Token = ''tok1'', ClientID = ''c1'',
                 tokExpiresAt = 120000005000, Used = False\<rparr>])\<rparr>)
   \<and> (120000005000 :: int) \<noteq> now1 env0 + 3600 * 1000000000"
  by (simp add: createOneTimeLink_def loadClients_def loadTokens_def saveTokens_def
      seconds_def wrap64_def example_defs)

section \<open>Redeeming a link\<close>

lemmas redeem_eval =
  handleDownloadToken_def pathToken_def TrimPrefix_def loadTokens_def saveTokens_def
  findClientAndState_def readServerState_def loadClients_def expired_def renderClientConfig_def
  httpError_def httpErrorOf_def

lemma tokenIndex_less: "tokenIndex tok ts = Some i \<Longrightarrow> i < length ts"
  by (induction ts arbitrary: i) (auto split: if_splits)

lemma redeem_200_or_not:
  "status (fst (handleDownloadToken a L e r w)) \<noteq> 200 \<or>
     (\<exists>ts i. loadTokens w = Inr ts \<and> tokenIndex (pathToken L r) ts = Some i \<and> \<not> Used (ts ! i)
        \<and> snd (handleDownloadToken a L e r w) =
            w\<lparr>tokensFile := Content (ts[i := (ts ! i)\<lparr>Used := True\<rparr>])\<rparr>)"
  by (simp add: handleDownloadToken_def saveTokens_def httpError_def httpErrorOf_def Let_def
      split: prod.split sum.split option.split)

text \<open>
  Claim C1, as the code has it. A redemption that is rejected at the token checks (the
  method is not GET, the token is empty, the token list does not load, no token has that
  value, or the token is used or past its expiry) leaves every file as it was and does not
  answer 200. A redemption that finds the token unused and not past its expiry, and whose
  write of the token list succeeds, leaves the token list with that token marked used,
  whatever the lookup of the client then gives: the flag is written before the client is
  looked up. Every redemption that answers 200 has marked a token that was not used.
\<close>

theorem redeem_marks_token_before_client_lookup:
  "(Method r \<noteq> ''GET'' \<or> pathToken L r = '''' \<or> loadTokens w = Inl err
      \<or> (loadTokens w = Inr ts
          \<and> (tokenIndex (pathToken L r) ts = None
              \<or> (tokenIndex (pathToken L r) ts = Some i
                  \<and> (Used (ts ! i) \<or> tokExpiresAt (ts ! i) < now1 e))))
    \<longrightarrow> snd (handleDownloadToken a L e r w) = w
        \<and> status (fst (handleDownloadToken a L e r w)) \<noteq> 200)
   \<and> (Method r = ''GET'' \<and> pathToken L r \<noteq> '''' \<and> loadTokens w = Inr ts
       \<and> tokenIndex (pathToken L r) ts = Some i
       \<and> \<not> Used (ts ! i) \<and> \<not> tokExpiresAt (ts ! i) < now1 e \<and> saveTokensErr e = None
    \<longrightarrow> snd (handleDownloadToken a L e r w) =
          w\<lparr>tokensFile := Content (ts[i := (ts ! i)\<lparr>Used := True\<rparr>])\<rparr>)
   \<and> (status (fst (handleDownloadToken a L e r w)) = 200
    \<longrightarrow> (\<exists>ts i. loadTokens w = Inr ts \<and> tokenIndex (pathToken L r) ts = Some i
           \<and> \<not> Used (ts ! i)
           \<and> snd (handleDownloadToken a L e r w) =
               w\<lparr>tokensFile := Content (ts[i := (ts ! i)\<lparr>Used := True\<rparr>])\<rparr>))"
proof (intro conjI impI)
  assume rejected: "Method r \<noteq> ''GET'' \<or> pathToken L r = '''' \<or> loadTokens w = Inl err
      \<or> (loadTokens w = Inr ts
          \<and> (tokenIndex (pathToken L r) ts = None
              \<or> (tokenIndex (pathToken L r) ts = Some i
                  \<and> (Used (ts ! i) \<or> tokExpiresAt (ts ! i) < now1 e))))"
  then have "snd (handleDownloadToken a L e r w) = w
      \<and> status (fst (handleDownloadToken a L e r w)) \<noteq> 200"
    by (auto simp: handleDownloadToken_def httpError_def httpErrorOf_def Let_def split: if_splits)
  then show "snd (handleDownloadToken a L e r w) = w"
    and "status (fst (handleDownloadToken a L e r w)) \<noteq> 200" by simp_all
next
  assume "Method r = ''GET'' \<and> pathToken L r \<noteq> '''' \<and> loadTokens w = Inr ts
       \<and> tokenIndex (pathToken L r) ts = Some i
       \<and> \<not> Used (ts ! i) \<and> \<not> tokExpiresAt (ts ! i) < now1 e \<and> saveTokensErr e = None"
  then show "snd (handleDownloadToken a L e r w) =
      w\<lparr>tokensFile := Content (ts[i := (ts ! i)\<lparr>Used := True\<rparr>])\<rparr>"
    by (simp add: handleDownloadToken_def saveTokens_def Let_def split: sum.split prod.split)
next
  assume "status (fst (handleDownloadToken a L e r w)) = 200"
  with redeem_200_or_not [of a L e r w]
  show "\<exists>ts i. loadTokens w = Inr ts \<and> tokenIndex (pathToken L r) ts = Some i
           \<and> \<not> Used (ts ! i)
           \<and> snd (handleDownloadToken a L e r w) =
               w\<lparr>tokensFile := Content (ts[i := (ts ! i)\<lparr>Used := True\<rparr>])\<rparr>"
    by blast
qed

text \<open>The theorem at instant 5000: an unknown token, the token of the deleted client (the
  answer is 404 and the token is marked), and the token of \<open>alice\<close>.\<close>

theorem redeem_marks_token_before_client_lookup_witness:
  "snd (handleDownloadToken app0 exampleLib env0 (redeem ''nope'') world0) = world0
   \<and> status (fst (handleDownloadToken app0 exampleLib env0 (redeem ''nope'') world0)) \<noteq> 200
   \<and> status (fst (handleDownloadToken app0 exampleLib env0 (redeem ''tokZ'') world0)) = 404
   \<and> snd (handleDownloadToken app0 exampleLib env0 (redeem ''tokZ'') world0) =
       world0\<lparr>tokensFile := Content (tokens0[2 := (tokens0 ! 2)\<lparr>Used := True\<rparr>])\<rparr>
   \<and> status (fst (handleDownloadToken app0 exampleLib env0 (redeem ''tokA'') world0)) = 200
   \<and> (\<exists>ts i. loadTokens world0 = Inr ts
         \<and> tokenIndex (pathToken exampleLib (redeem ''tokA'')) ts = Some i \<and> \<not> Used (ts ! i)
         \<and> snd (handleDownloadToken app0 exampleLib env0 (redeem ''tokA'') world0) =
             world0\<lparr>tokensFile := Content (ts[i := (ts ! i)\<lparr>Used := True\<rparr>])\<rparr>)"
proof -
  have unknown: "Method (redeem ''nope'') \<noteq> ''GET'' \<or> pathToken exampleLib (redeem ''nope'') = ''''
      \<or> loadTokens world0 = Inl ErrRead
      \<or> (loadTokens world0 = Inr tokens0
          \<and> (tokenIndex (pathToken exampleLib (redeem ''nope'')) tokens0 = None
              \<or> (tokenIndex (pathToken exampleLib (redeem ''nope'')) tokens0 = Some 0
                  \<and> (Used (tokens0 ! 0) \<or> tokExpiresAt (tokens0 ! 0) < now1 env0))))"
    by (simp add: redeem_eval example_defs)
  have fresh: "Method (redeem ''tokZ'') = ''GET'' \<and> pathToken exampleLib (redeem ''tokZ'') \<noteq> ''''
      \<and> loadTokens world0 = Inr tokens0
      \<and> tokenIndex (pathToken exampleLib (redeem ''tokZ'')) tokens0 = Some 2
      \<and> \<not> Used (tokens0 ! 2) \<and> \<not> tokExpiresAt (tokens0 ! 2) < now1 env0
      \<and> saveTokensErr env0 = None"
    by (simp add: redeem_eval example_defs)
  have gone: "status (fst (handleDownloadToken app0 exampleLib env0 (redeem ''tokZ'') world0)) = 404"
    by (simp add: redeem_eval example_defs)
  have ok: "status (fst (handleDownloadToken app0 exampleLib env0 (redeem ''tokA'') world0)) = 200"
    by (simp add: redeem_eval example_defs)
  note rejected = redeem_marks_token_before_client_lookup
    [where r = "redeem ''nope''" and L = exampleLib and w = world0 and err = ErrRead
       and ts = tokens0 and i = 0 and e = env0 and a = app0,
     THEN conjunct1, rule_format, OF unknown]
  note marked = redeem_marks_token_before_client_lookup
    [where r = "redeem ''tokZ''" and L = exampleLib and w = world0 and ts = tokens0 and i = 2
       and e = env0 and a = app0,
     THEN conjunct2, THEN conjunct1, rule_format, OF fresh]
  note served = redeem_marks_token_before_client_lookup
    [where r = "redeem ''tokA''" and L = exampleLib and w = world0 and e = env0 and a = app0,
     THEN conjunct2, THEN conjunct2, rule_format, OF ok]
  from rejected marked gone ok served show ?thesis
    by blast
qed

text \<open>
  Claim C1 as stated fails: redeeming the token of the expired client \<open>bob\<close> is refused with
  410, and the token list written by the attempt has the token marked used.
\<close>

theorem failed_redemption_marks_token:
  "status (fst (handleDownloadToken app0 exampleLib env0 (redeem ''tokB'') world0)) = 410
   \<and> tokensFile (snd (handleDownloadToken app0 exampleLib env0 (redeem ''tokB'') world0)) =
       Content [\<lparr>Token = ''tokA'', ClientID = ''c1'', tokExpiresAt = 9000, Used = False\<rparr>,
                \<lparr>Token = ''tokB'', ClientID = ''c2'', tokExpiresAt = 9000, Used = True\<rparr>,
                \<lparr>Token = ''tokZ'', ClientID = ''c9'', tokExpiresAt = 9000, Used = False\<rparr>]
   \<and> tokensFile (snd (handleDownloadToken app0 exampleLib env0 (redeem ''tokB'') world0)) \<noteq>
       tokensFile world0"
  by (simp add: redeem_eval example_defs)

text \<open>
  Claim C2, as the code has it. For a GET whose token list loads: the answer is 404 when no
  token has the value of the request; for a token that is found, 410 when it is used or
  past its expiry; otherwise, the write of the token list succeeding and the server state
  and client list loading, 404 when no client has the token's client id (the client was
  deleted), 410 when that client's expiry has passed, and 200 with the client's rendered
  configuration in every other case.
\<close>

theorem redeem_outcomes:
  "Method r = ''GET'' \<and> loadTokens w = Inr ts \<longrightarrow>
     (tokenIndex (pathToken L r) ts = None \<longrightarrow>
        handleDownloadToken a L e r w = (httpError ''not found'' 404, w))
     \<and> (pathToken L r \<noteq> '''' \<and> tokenIndex (pathToken L r) ts = Some i \<longrightarrow>
          (Used (ts ! i) \<or> tokExpiresAt (ts ! i) < now1 e \<longrightarrow>
             handleDownloadToken a L e r w = (httpError ''gone'' 410, w))
          \<and> (\<not> Used (ts ! i) \<and> \<not> tokExpiresAt (ts ! i) < now1 e \<and> saveTokensErr e = None
               \<and> readServerState w = Inr st \<and> loadClients w = Inr cs \<longrightarrow>
              (ClientID (ts ! i) \<notin> set (map ID cs) \<longrightarrow>
                 fst (handleDownloadToken a L e r w) = httpError ''not found'' 404)
              \<and> (find (\<lambda>c. ID c = ClientID (ts ! i)) cs = Some c \<and> expired (now2 e) c \<longrightarrow>
                   fst (handleDownloadToken a L e r w) = httpError ''expired'' 410)
              \<and> (find (\<lambda>c. ID c = ClientID (ts ! i)) cs = Some c \<and> \<not> expired (now2 e) c \<longrightarrow>
                   fst (handleDownloadToken a L e r w) =
                     \<lparr>status = 200, body = ConfigFile (renderClientConfig a L w c st)\<rparr>)))"
proof (intro conjI impI; elim conjE)
  assume "Method r = ''GET''" "loadTokens w = Inr ts" "tokenIndex (pathToken L r) ts = None"
  then show "handleDownloadToken a L e r w = (httpError ''not found'' 404, w)"
    by (simp add: handleDownloadToken_def Let_def)
next
  assume "Method r = ''GET''" "loadTokens w = Inr ts" "pathToken L r \<noteq> ''''"
    "tokenIndex (pathToken L r) ts = Some i" "Used (ts ! i) \<or> tokExpiresAt (ts ! i) < now1 e"
  then show "handleDownloadToken a L e r w = (httpError ''gone'' 410, w)"
    by (auto simp: handleDownloadToken_def Let_def)
next
  assume pre: "Method r = ''GET''" "loadTokens w = Inr ts" "pathToken L r \<noteq> ''''"
    "tokenIndex (pathToken L r) ts = Some i" "\<not> Used (ts ! i)"
    "\<not> tokExpiresAt (ts ! i) < now1 e" "saveTokensErr e = None"
    "readServerState w = Inr st" "loadClients w = Inr cs"
  from pre(4) have len: "i < length ts" by (rule tokenIndex_less)
  let ?w1 = "w\<lparr>tokensFile := Content (ts[i := (ts ! i)\<lparr>Used := True\<rparr>])\<rparr>"
  have look: "findClientAndState ?w1 (ClientID (ts ! i)) =
      (case find (\<lambda>c. ID c = ClientID (ts ! i)) cs of
         Some c \<Rightarrow> Inr (c, st) | None \<Rightarrow> Inl ErrNotExist)"
    using pre(8,9) by (simp add: findClientAndState_def readServerState_def loadClients_def)
  have run: "handleDownloadToken a L e r w =
      (case findClientAndState ?w1 (ClientID (ts ! i)) of
         Inl err \<Rightarrow> (httpError ''not found'' 404, ?w1)
       | Inr (c, st) \<Rightarrow>
           if expired (now2 e) c then (httpError ''expired'' 410, ?w1)
           else (\<lparr>status = 200, body = ConfigFile (renderClientConfig a L ?w1 c st)\<rparr>, ?w1))"
    using pre len by (simp add: handleDownloadToken_def saveTokens_def Let_def)
  {
    assume "ClientID (ts ! i) \<notin> set (map ID cs)"
    then have "find (\<lambda>c. ID c = ClientID (ts ! i)) cs = None" by (simp add: find_ID_None)
    then show "fst (handleDownloadToken a L e r w) = httpError ''not found'' 404"
      by (simp add: run look)
  next
    assume "find (\<lambda>c. ID c = ClientID (ts ! i)) cs = Some c" "expired (now2 e) c"
    then show "fst (handleDownloadToken a L e r w) = httpError ''expired'' 410"
      by (simp add: run look)
  next
    assume "find (\<lambda>c. ID c = ClientID (ts ! i)) cs = Some c" "\<not> expired (now2 e) c"
    then show "fst (handleDownloadToken a L e r w) =
        \<lparr>status = 200, body = ConfigFile (renderClientConfig a L w c st)\<rparr>"
      by (simp add: run look renderClientConfig_def)
  }
qed

text \<open>The theorem on the five outcomes: an unknown token, a token past its expiry (at instant
  9500), the token of the deleted client, of the expired client and of \<open>alice\<close>.\<close>

theorem redeem_outcomes_witness:
  "handleDownloadToken app0 exampleLib env0 (redeem ''nope'') world0 =
       (\<lparr>status = 404, body = Text ''not found''\<rparr>, world0)
   \<and> handleDownloadToken app0 exampleLib (env0\<lparr>now1 := 9500\<rparr>) (redeem ''tokA'') world0 =
       (\<lparr>status = 410, body = Text ''gone''\<rparr>, world0)
   \<and> fst (handleDownloadToken app0 exampleLib env0 (redeem ''tokZ'') world0) =
       \<lparr>status = 404, body = Text ''not found''\<rparr>
   \<and> fst (handleDownloadToken app0 exampleLib env0 (redeem ''tokB'') world0) =
       \<lparr>status = 410, body = Text ''expired''\<rparr>
   \<and> fst (handleDownloadToken app0 exampleLib env0 (redeem ''tokA'') world0) =
       \<lparr>status = 200, body = ConfigFile (renderClientConfig app0 exampleLib world0 alice st0)\<rparr>"
proof -
  have get: "\<And>t. Method (redeem t) = ''GET'' \<and> loadTokens world0 = Inr tokens0"
    by (simp add: redeem_eval example_defs)
  have recs: "readServerState world0 = Inr st0" "loadClients world0 = Inr [alice, bob]"
    "saveTokensErr env0 = None"
    by (simp_all add: redeem_eval example_defs)
  have nope: "tokenIndex (pathToken exampleLib (redeem ''nope'')) tokens0 = None"
    by (simp add: redeem_eval example_defs)
  have tokA: "pathToken exampleLib (redeem ''tokA'') \<noteq> ''''
      \<and> tokenIndex (pathToken exampleLib (redeem ''tokA'')) tokens0 = Some 0"
    and tokB: "pathToken exampleLib (redeem ''tokB'') \<noteq> ''''
      \<and> tokenIndex (pathToken exampleLib (redeem ''tokB'')) tokens0 = Some 1"
    and tokZ: "pathToken exampleLib (redeem ''tokZ'') \<noteq> ''''
      \<and> tokenIndex (pathToken exampleLib (redeem ''tokZ'')) tokens0 = Some 2"
    by (simp_all add: redeem_eval example_defs)
  have late: "Used (tokens0 ! 0) \<or> tokExpiresAt (tokens0 ! 0) < now1 (env0\<lparr>now1 := 9500\<rparr>)"
    by (simp add: example_defs)
  have valid: "\<not> Used (tokens0 ! 0) \<and> \<not> tokExpiresAt (tokens0 ! 0) < now1 env0"
    "\<not> Used (tokens0 ! 1) \<and> \<not> tokExpiresAt (tokens0 ! 1) < now1 env0"
    "\<not> Used (tokens0 ! 2) \<and> \<not> tokExpiresAt (tokens0 ! 2) < now1 env0"
    by (simp_all add: example_defs)
  have clients: "ClientID (tokens0 ! 2) \<notin> set (map ID [alice, bob])"
    "find (\<lambda>c. ID c = ClientID (tokens0 ! 1)) [alice, bob] = Some bob \<and> expired (now2 env0) bob"
    "find (\<lambda>c. ID c = ClientID (tokens0 ! 0)) [alice, bob] = Some alice
       \<and> \<not> expired (now2 env0) alice"
    by (simp_all add: example_defs expired_def)
  have unknown: "handleDownloadToken app0 exampleLib env0 (redeem ''nope'') world0 =
      (httpError ''not found'' 404, world0)"
    using redeem_outcomes [where r = "redeem ''nope''" and w = world0 and ts = tokens0
        and L = exampleLib and a = app0 and e = env0] get nope
    by blast
  have expired_token: "handleDownloadToken app0 exampleLib (env0\<lparr>now1 := 9500\<rparr>)
      (redeem ''tokA'') world0 = (httpError ''gone'' 410, world0)"
    using redeem_outcomes [where r = "redeem ''tokA''" and w = world0 and ts = tokens0
        and L = exampleLib and a = app0 and e = "env0\<lparr>now1 := 9500\<rparr>" and i = 0] get tokA late
    by blast
  have deleted: "fst (handleDownloadToken app0 exampleLib env0 (redeem ''tokZ'') world0) =
      httpError ''not found'' 404"
    using redeem_outcomes [where r = "redeem ''tokZ''" and w = world0 and ts = tokens0
        and L = exampleLib and a = app0 and e = env0 and i = 2 and st = st0
        and cs = "[alice, bob]"] get tokZ valid(3) recs clients(1)
    by simp
  have expired_client: "fst (handleDownloadToken app0 exampleLib env0 (redeem ''tokB'') world0) =
      httpError ''expired'' 410"
    using redeem_outcomes [where r = "redeem ''tokB''" and w = world0 and ts = tokens0
        and L = exampleLib and a = app0 and e = env0 and i = 1 and st = st0
        and cs = "[alice, bob]" and c = bob] get tokB valid(2) recs clients(2)
    by simp
  have served: "fst (handleDownloadToken app0 exampleLib env0 (redeem ''tokA'') world0) =
      \<lparr>status = 200, body = ConfigFile (renderClientConfig app0 exampleLib world0 alice st0)\<rparr>"
    using redeem_outcomes [where r = "redeem ''tokA''" and w = world0 and ts = tokens0
        and L = exampleLib and a = app0 and e = env0 and i = 0 and st = st0
        and cs = "[alice, bob]" and c = alice] get tokA valid(1) recs clients(3)
    by simp
  from unknown expired_token deleted expired_client served show ?thesis
    by (simp add: httpError_def)
qed

text \<open>
  Claim C2 as stated fails: the token \<open>tokZ\<close> is unused and not past its expiry, its client
  \<open>c9\<close> has been deleted, and the redemption answers 404, not 410.
\<close>

theorem deleted_client_redeems_not_found:
  "loadTokens world0 = Inr tokens0 \<and> tokenIndex ''tokZ'' tokens0 = Some 2
   \<and> \<not> Used (tokens0 ! 2) \<and> \<not> tokExpiresAt (tokens0 ! 2) < now1 env0
   \<and> loadClients world0 = Inr [alice, bob] \<and> ClientID (tokens0 ! 2) \<notin> set (map ID [alice, bob])
   \<and> fst (handleDownloadToken app0 exampleLib env0 (redeem ''tokZ'') world0) =
       \<lparr>status = 404, body = Text ''not found''\<rparr>
   \<and> status (fst (handleDownloadToken app0 exampleLib env0 (redeem ''tokZ'') world0)) \<noteq> 410"
  by (simp add: redeem_eval example_defs)

section \<open>What holds of the pool bound and of the time-to-live\<close>

text \<open>
  Beyond the pool the allocator fails, with the pool-exhausted error when the subnet is an
  IPv4 /24, and a creation whose allocation fails leaves the files as they were. The host
  octet of a returned address lies between 2 and 255.
\<close>

lemma allocator_pool_exhausted:
  "ParseCIDR L (SubnetCIDR st) = Some ipn \<Longrightarrow> To4 (netIP ipn) = Some base \<Longrightarrow>
   maskOnes ipn = 24 \<Longrightarrow> 254 < NextHost st \<Longrightarrow>
   allocateNextAddress L st = Inl ErrPoolExhausted"
  by (simp add: allocateNextAddress_def)

lemma allocator_fails_beyond_pool: "254 < NextHost st \<Longrightarrow> \<exists>err. allocateNextAddress L st = Inl err"
  by (simp add: allocateNextAddress_def split: option.split)

lemma createClient_without_address:
  "readServerState w = Inr st \<Longrightarrow> allocateNextAddress L st = Inl err \<Longrightarrow>
   snd (createClient a L e r w) = w \<and> status (fst (createClient a L e r w)) \<noteq> 200"
  by (simp add: createClient_def httpError_def httpErrorOf_def Let_def
      split: prod.split sum.split option.split)

lemma allocator_host_range:
  assumes "allocateNextAddress L st = Inr (addr, st')"
  shows "2 \<le> NextHost st' - 1 \<and> NextHost st' - 1 \<le> 255"
  using allocate_ok [OF assms] by auto

text \<open>
  The time-to-live is 3600 when \<open>ttlSeconds\<close> is omitted or not positive and the caller's
  value otherwise.
\<close>

lemma link_ttl_chosen:
  "loadClients w = Inr cs \<Longrightarrow> cid \<in> set (map ID cs) \<Longrightarrow> loadTokens w = Inr ts \<Longrightarrow>
   saveTokensErr e = None \<Longrightarrow> Body r = JSONValue \<lparr>TTLSeconds = t\<rparr> err \<Longrightarrow>
   tokensFile (snd (createOneTimeLink a e r cid w)) =
     Content (ts @ [\<lparr>Token = newToken e, ClientID = cid,
        tokExpiresAt = now1 e + seconds (case t of None \<Rightarrow> 3600 | Some n \<Rightarrow> if 0 < n then n else 3600),
        Used = False\<rparr>])"
  by (simp add: createOneTimeLink_def find_ID_None saveTokens_def Let_def)

end
